theory Spec2Isabelle
  imports Complex_Main
begin

section \<open>JavaScript values\<close>

text \<open>
  Request bodies, database columns and Stripe events are JSON values. A property that
  is absent reads as JavaScript's \<open>undefined\<close>, modelled as \<open>None\<close> of
  \<open>json option\<close>. An object is an association list; a lookup takes the first
  binding of the key.
\<close>

datatype json =
    JNull
  | JBool bool
  | JNum rat
  | JStr string
  | JArr "json list"
  | JObj "(string \<times> json) list"

text \<open>Exceptions the handlers catch: a \<open>TypeError\<close> of the language (a property
  of \<open>null\<close> or \<open>undefined\<close>, a call of something that is no function), a
  \<open>SyntaxError\<close> of \<open>JSON.parse\<close>, and the errors of the collaborators (the
  storage layer, the payment provider, the signature check).\<close>

datatype exn = TypeError | SyntaxError | StorageError | ProviderError | SignatureError

text \<open>What a handler sends back: the HTTP status and the payload. \<open>ErrorMessage e\<close>
  stands for a payload built from the message of the caught error \<open>e\<close>.\<close>

datatype payload = Text string | Body json | ErrorMessage exn

datatype reply = Reply nat payload

fun http_status :: "reply \<Rightarrow> nat" where
  "http_status (Reply c p) = c"

text \<open>JavaScript truthiness: \<open>null\<close>, \<open>false\<close>, \<open>0\<close>, the empty string and
  \<open>undefined\<close> are falsy; every array and object is truthy.\<close>

fun truthy :: "json \<Rightarrow> bool" where
  "truthy JNull = False"
| "truthy (JBool b) = b"
| "truthy (JNum r) = (r \<noteq> 0)"
| "truthy (JStr s) = (s \<noteq> [])"
| "truthy (JArr xs) = True"
| "truthy (JObj kvs) = True"

fun truthy_opt :: "json option \<Rightarrow> bool" where
  "truthy_opt None = False"
| "truthy_opt (Some v) = truthy v"

text \<open>\<open>a || b\<close>: the left operand when it is truthy, the right one otherwise.\<close>

definition js_or :: "json option \<Rightarrow> json option \<Rightarrow> json option" where
  "js_or a b = (if truthy_opt a then a else b)"

text \<open>\<open>v.k\<close> for a value \<open>v\<close> that is neither \<open>null\<close> nor \<open>undefined\<close>: an own
  property of an object, \<open>undefined\<close> on anything else (none of the property names the
  handlers read is inherited by a string, a number, a boolean or an array). Reading a
  property of \<open>null\<close> throws; the handlers below test for \<open>JNull\<close> before they
  call \<open>field\<close>.\<close>

fun field :: "json \<Rightarrow> string \<Rightarrow> json option" where
  "field (JObj kvs) k = map_of kvs k"
| "field v k = None"

text \<open>A column that the inserted object leaves \<open>undefined\<close> is stored as \<open>null\<close>.\<close>

fun column :: "json option \<Rightarrow> json" where
  "column None = JNull"
| "column (Some v) = v"

text \<open>\<open>String.prototype.toLowerCase\<close> on the ASCII letters. The handlers compare its
  result with \<open>paid\<close>, \<open>success\<close>, \<open>completed\<close> and \<open>ghs\<close> only, and no
  character outside ASCII lower-cases to a letter of these words.\<close>

definition lower_char :: "char \<Rightarrow> char" where
  "lower_char c =
     (let n = (of_char c :: nat)
      in if 65 \<le> n \<and> n \<le> 90 then char_of (n + 32) else c)"

definition toLowerCase :: "string \<Rightarrow> string" where
  "toLowerCase s = map lower_char s"

section \<open>The storage layer\<close>

text \<open>
  The two tables the handlers reach through the Supabase client. A payment row has the
  columns \<open>createPaymentRecord\<close> writes; an order row has the columns either webhook
  writes (a column a handler does not supply is \<open>null\<close>).
\<close>

record payment_row =
  payment_id :: string
  provider :: string
  amount :: json
  phone :: json
  customer_name :: json
  items :: json
  status :: string
  provider_data :: json

record order_row =
  o_user_email :: json
  o_items :: json
  o_total :: json
  o_name :: json
  o_phone :: json
  o_address :: json
  o_status :: string
  o_stripe_payment_intent :: json

record db =
  payments :: "payment_row list"
  orders :: "order_row list"

text \<open>The calls a handler makes on the client, in the order it makes them.\<close>

datatype db_op =
    PaymentsInsert payment_row
  | PaymentsUpdate string json string
  | PaymentsSelect string
  | OrdersInsert order_row

text \<open>
  The schema and its constraints are not part of the repository, so the storage layer is
  a parameter: \<open>accepts st d op\<close> tells whether the store in state \<open>d\<close> executes the
  call \<open>op\<close>; otherwise the client returns an \<open>error\<close> and the tables stay as they
  are. \<open>to_text\<close> is JavaScript's \<open>String(v)\<close> on a value that is not a string: the
  client builds the filter \<open>eq.${value}\<close> with it.
\<close>

record store =
  accepts :: "db \<Rightarrow> db_op \<Rightarrow> bool"
  to_text :: "json \<Rightarrow> string"

fun filter_text :: "store \<Rightarrow> json \<Rightarrow> string" where
  "filter_text st (JStr s) = s"
| "filter_text st v = to_text st v"

text \<open>\<open>update({ status, provider_data }).eq('payment_id', k)\<close> on one row.\<close>

definition stamped :: "string \<Rightarrow> json \<Rightarrow> string \<Rightarrow> payment_row \<Rightarrow> payment_row" where
  "stamped s pd k r = (if payment_id r = k then r\<lparr>status := s, provider_data := pd\<rparr> else r)"

fun effect :: "db_op \<Rightarrow> db \<Rightarrow> db" where
  "effect (PaymentsInsert r) d = d\<lparr>payments := payments d @ [r]\<rparr>"
| "effect (PaymentsUpdate s pd k) d = d\<lparr>payments := map (stamped s pd k) (payments d)\<rparr>"
| "effect (PaymentsSelect k) d = d"
| "effect (OrdersInsert orow) d = d\<lparr>orders := orders d @ [orow]\<rparr>"

definition exec :: "store \<Rightarrow> db_op \<Rightarrow> db \<Rightarrow> db" where
  "exec st op d = (if accepts st d op then effect op d else d)"

text \<open>\<open>select('*').eq('payment_id', k).limit(1)\<close> followed by \<open>.data?.[0]\<close>: the
  first matching row, \<open>undefined\<close> when there is none or the call returns an error.\<close>

definition select_payment :: "store \<Rightarrow> string \<Rightarrow> db \<Rightarrow> payment_row option" where
  "select_payment st k d =
     (if accepts st d (PaymentsSelect k)
      then find (\<lambda>r. payment_id r = k) (payments d) else None)"

section \<open>Mobile-money backend (src/backend/server.js)\<close>

text \<open>
  A handler returns its reply, the storage calls it made in order, and the tables as
  it leaves them.

  \<open>createPaymentRecord\<close> inserts the row with status \<open>pending\<close> and throws the
  client's error. The identifier that \<open>makeId()\<close> draws from the clock and the random
  generator is an argument of the model.
\<close>

definition payment_record ::
  "string \<Rightarrow> string \<Rightarrow> json \<Rightarrow> json \<Rightarrow> json option \<Rightarrow> json option \<Rightarrow> json \<Rightarrow> payment_row" where
  "payment_record pid prov amt ph nm its rawProviderData =
     \<lparr>payment_id = pid, provider = prov, amount = amt, phone = ph,
      customer_name = column nm, items = column its, status = ''pending'',
      provider_data = (if truthy rawProviderData then rawProviderData else JNull)\<rparr>"

definition createPaymentRecord :: "store \<Rightarrow> payment_row \<Rightarrow> db \<Rightarrow> exn + db" where
  "createPaymentRecord st r d =
     (if accepts st d (PaymentsInsert r) then Inr (effect (PaymentsInsert r) d)
      else Inl StorageError)"

definition create_payment ::
  "string \<Rightarrow> string \<Rightarrow> string \<Rightarrow> string \<Rightarrow> store \<Rightarrow> string \<Rightarrow> json \<Rightarrow> db
     \<Rightarrow> reply \<times> db_op list \<times> db" where
  "create_payment prov note msg instr st pid body d =
     (case body of
        JNull \<Rightarrow> (Reply 500 (ErrorMessage TypeError), [], d)
      | _ \<Rightarrow>
        (let amt = field body ''amount''; ph = field body ''phone'';
             nm = field body ''name''; its = field body ''items''
         in if \<not> truthy_opt amt \<or> \<not> truthy_opt ph
            then (Reply 400 (Body (JObj [(''error'', JStr ''amount and phone required'')])),
                  [], d)
            else
              (let provJson = JObj [(''simulated'', JBool True), (''note'', JStr note)];
                   r = payment_record pid prov (column amt) (column ph) nm its provJson
               in case createPaymentRecord st r d of
                    Inl e \<Rightarrow> (Reply 500 (ErrorMessage e), [PaymentsInsert r], d)
                  | Inr d' \<Rightarrow>
                      (Reply 200 (Body (JObj
                         [(''paymentId'', JStr pid), (''status'', JStr ''pending''),
                          (''message'', JStr msg),
                          (''nextAction'', JObj [(''instructions'', JStr instr)])])),
                       [PaymentsInsert r], d'))))"

definition create_payment_orange ::
  "store \<Rightarrow> string \<Rightarrow> json \<Rightarrow> db \<Rightarrow> reply \<times> db_op list \<times> db" where
  "create_payment_orange =
     create_payment ''orange'' ''You must replace with real Orange API call''
       ''Payment created (simulated).''
       ''User will receive a prompt on their Orange Money app / phone to accept payment. Check the status here.''"


text \<open>
  The two webhooks, \<open>/webhook/orange\<close> and \<open>/webhook/mtn\<close>, are the same statements
  but for the label they log. In source order: the identifier is the first truthy one
  of \<open>externalId\<close>, \<open>payment_id\<close>, \<open>reference\<close>; the status is the first truthy
  one of \<open>status\<close>, \<open>result\<close>, else \<open>pending\<close>, lower-cased (calling
  \<open>toLowerCase\<close> on a value that is no string throws, which the handler catches and
  answers with 500); a falsy identifier is answered with 400; the update of the payment
  rows is issued, its result ignored; for a paid-equivalent status the row is selected
  and, when there is one, an order is inserted, the result ignored again.
\<close>

definition paid_equivalent :: "string \<Rightarrow> bool" where
  "paid_equivalent s = (s = ''paid'' \<or> s = ''success'' \<or> s = ''completed'')"

definition order_of_payment :: "payment_row \<Rightarrow> order_row" where
  "order_of_payment p =
     \<lparr>o_user_email = (if truthy (phone p) then phone p else JStr ''guest''),
      o_items = items p,
      o_total = amount p,
      o_name = (if truthy (customer_name p) then customer_name p else JStr ''''),
      o_phone = JNull,
      o_address = JStr ''Mobile money'',
      o_status = ''pending'',
      o_stripe_payment_intent = JNull\<rparr>"

definition notification_id :: "json \<Rightarrow> json option" where
  "notification_id body =
     js_or (js_or (field body ''externalId'') (field body ''payment_id''))
       (field body ''reference'')"

definition notification_status :: "json \<Rightarrow> json option" where
  "notification_status body =
     js_or (js_or (field body ''status'') (field body ''result'')) (Some (JStr ''pending''))"

definition webhook :: "store \<Rightarrow> json \<Rightarrow> db \<Rightarrow> reply \<times> db_op list \<times> db" where
  "webhook st body d =
     (case body of
        JNull \<Rightarrow> (Reply 500 (Text ''err''), [], d)
      | _ \<Rightarrow>
        (let paymentId = notification_id body
         in case notification_status body of
              Some (JStr s) \<Rightarrow>
                (let status = toLowerCase s; provider_message = body
                 in case paymentId of
                      None \<Rightarrow> (Reply 400 (Text ''missing id''), [], d)
                    | Some v \<Rightarrow>
                        if \<not> truthy v then (Reply 400 (Text ''missing id''), [], d)
                        else
                          (let k = filter_text st v;
                               upd = PaymentsUpdate status provider_message k;
                               d1 = exec st upd d
                           in if paid_equivalent status
                              then (case select_payment st k d1 of
                                      Some p \<Rightarrow>
                                        (Reply 200 (Text ''ok''),
                                         [upd, PaymentsSelect k, OrdersInsert (order_of_payment p)],
                                         exec st (OrdersInsert (order_of_payment p)) d1)
                                    | None \<Rightarrow>
                                        (Reply 200 (Text ''ok''), [upd, PaymentsSelect k], d1))
                              else (Reply 200 (Text ''ok''), [upd], d1)))
            | _ \<Rightarrow> (Reply 500 (Text ''err''), [], d)))"

definition webhook_orange :: "store \<Rightarrow> json \<Rightarrow> db \<Rightarrow> reply \<times> db_op list \<times> db" where
  "webhook_orange = webhook"

definition webhook_mtn :: "store \<Rightarrow> json \<Rightarrow> db \<Rightarrow> reply \<times> db_op list \<times> db" where
  "webhook_mtn = webhook"

text \<open>The three parts of what a handler returns.\<close>

abbreviation answer :: "reply \<times> db_op list \<times> db \<Rightarrow> reply" where
  "answer x \<equiv> fst x"

abbreviation calls :: "reply \<times> db_op list \<times> db \<Rightarrow> db_op list" where
  "calls x \<equiv> fst (snd x)"

abbreviation tables :: "reply \<times> db_op list \<times> db \<Rightarrow> db" where
  "tables x \<equiv> snd (snd x)"


section \<open>Card backend (src/unnamed/part_002)\<close>

text \<open>
  A JavaScript number that a handler computes is a rational, or \<open>None\<close> when it is
  not finite (\<open>NaN\<close>, an infinity). The arithmetic is exact: it is the arithmetic of
  the doubles whenever every operand and result is an integer below \<open>2 ^ 53\<close> in
  magnitude. Rounding of other doubles is not modelled.
\<close>

type_synonym jsnum = "rat option"

definition num_add :: "jsnum \<Rightarrow> jsnum \<Rightarrow> jsnum" where
  "num_add a b = (case (a, b) of (Some x, Some y) \<Rightarrow> Some (x + y) | _ \<Rightarrow> None)"

definition num_mul :: "jsnum \<Rightarrow> jsnum \<Rightarrow> jsnum" where
  "num_mul a b = (case (a, b) of (Some x, Some y) \<Rightarrow> Some (x * y) | _ \<Rightarrow> None)"


text \<open>\<open>Math.round\<close>: the nearest integer, a half rounded up.\<close>

definition Math_round :: "jsnum \<Rightarrow> jsnum" where
  "Math_round a = map_option (\<lambda>x. of_int \<lfloor>x + 1 / 2\<rfloor>) a"


text \<open>
  The configuration and the collaborators of the card backend:
  \<^item> \<open>GHS_RATE\<close> is \<open>parseFloat(process.env.GHS_RATE || "15")\<close>, \<open>None\<close> for
    \<open>NaN\<close>;
  \<open>STRIPE_WEBHOOK_SECRET\<close> is \<open>None\<close> when the variable is not set;
  \<^item> \<open>parseFloat\<close> on a string, and \<open>to_number\<close>, the conversion to a number of
    a string, an array or an object, are the language's;
  \<^item> \<open>stringify\<close> is \<open>JSON.stringify\<close>; \<open>parse_value v\<close> is \<open>JSON.parse(v)\<close>
    and \<open>parse_body b\<close> is \<open>JSON.parse(b.toString())\<close>, \<open>None\<close> when it throws;
  \<^item> \<open>paymentIntents_create\<close> is the provider's call, returning the client secret
    and the identifier of the intent; \<open>constructEvent\<close> is the provider library's
    signature check of the raw body against the \<open>stripe-signature\<close> header.
\<close>

record intent_params =
  pi_amount :: jsnum
  pi_currency :: string
  pi_metadata :: json
  pi_receipt_email :: "json option"

record card_env =
  GHS_RATE :: jsnum
  STRIPE_WEBHOOK_SECRET :: "string option"
  parseFloat :: "string \<Rightarrow> jsnum"
  to_number :: "json \<Rightarrow> jsnum"
  stringify :: "json \<Rightarrow> string"
  parse_value :: "json \<Rightarrow> json option"
  parse_body :: "string \<Rightarrow> json option"
  paymentIntents_create :: "intent_params \<Rightarrow> exn + string \<times> string"
  constructEvent :: "string \<Rightarrow> string option \<Rightarrow> string \<Rightarrow> exn + json"

text \<open>The conversion \<open>Number(v)\<close>, which \<open>*\<close> and \<open>/\<close> apply to an operand.\<close>

fun js_Number :: "card_env \<Rightarrow> json \<Rightarrow> jsnum" where
  "js_Number env (JNum r) = Some r"
| "js_Number env JNull = Some 0"
| "js_Number env (JBool b) = Some (if b then 1 else 0)"
| "js_Number env v = to_number env v"

text \<open>\<open>toSmallestUnit(amount, currency)\<close>; the currency is a string here, the caller
  has checked it.\<close>

definition toSmallestUnit :: "card_env \<Rightarrow> jsnum \<Rightarrow> string \<Rightarrow> jsnum" where
  "toSmallestUnit env amt currency =
     (if toLowerCase currency = ''ghs''
      then Math_round (num_mul (num_mul amt (GHS_RATE env)) (Some 100))
      else Math_round (num_mul amt (Some 100)))"

text \<open>One step of the \<open>reduce\<close> over the cart: \<open>s + price * qty\<close>. Reading
  \<open>i.price\<close> of a \<open>null\<close> item throws.\<close>

definition item_price :: "card_env \<Rightarrow> json \<Rightarrow> jsnum" where
  "item_price env i =
     (case field i ''price'' of
        Some (JStr s) \<Rightarrow> parseFloat env s
      | pv \<Rightarrow> if truthy_opt pv then js_Number env (column pv) else Some 0)"

definition item_qty :: "card_env \<Rightarrow> json \<Rightarrow> jsnum" where
  "item_qty env i =
     (let q = field i ''quantity''
      in if truthy_opt q then js_Number env (column q) else Some 1)"

fun cart_total :: "card_env \<Rightarrow> jsnum \<Rightarrow> json list \<Rightarrow> exn + jsnum" where
  "cart_total env s [] = Inr s"
| "cart_total env s (i # cart) =
     (case i of
        JNull \<Rightarrow> Inl TypeError
      | _ \<Rightarrow> cart_total env (num_add s (num_mul (item_price env i) (item_qty env i))) cart)"

text \<open>A destructured property with a default: the default replaces \<open>undefined\<close>
  only.\<close>

fun with_default :: "json option \<Rightarrow> json \<Rightarrow> json" where
  "with_default None dflt = dflt"
| "with_default (Some v) dflt = v"

definition or_else :: "json \<Rightarrow> json \<Rightarrow> json" where
  "or_else v dflt = (if truthy v then v else dflt)"

text \<open>
  \<open>POST /create-payment-intent\<close>. The handler makes no storage call; the model
  threads the tables through it to say so. What it asks of the provider (the amount
  from \<open>toSmallestUnit\<close>, the currency, the metadata, the receipt address) is
  returned beside the reply.
\<close>

definition payment_intent_params ::
  "card_env \<Rightarrow> json \<Rightarrow> json \<Rightarrow> json \<Rightarrow> json \<Rightarrow> json \<Rightarrow> string \<Rightarrow> jsnum \<Rightarrow> intent_params" where
  "payment_intent_params env cart nm ph addr em c totalUSD =
     \<lparr>pi_amount = toSmallestUnit env totalUSD c,
      pi_currency = (if c = ''ghs'' then ''ghs'' else ''usd''),
      pi_metadata = JObj
        [(''cart'', JStr (stringify env cart)),
         (''name'', or_else nm (JStr '''')),
         (''phone'', or_else ph (JStr '''')),
         (''address'', or_else addr (JStr '''')),
         (''email'', or_else em (JStr '''')),
         (''currency'', or_else (JStr c) (JStr ''usd''))],
      pi_receipt_email = (if truthy em then Some em else None)\<rparr>"

definition create_payment_intent ::
  "card_env \<Rightarrow> json \<Rightarrow> db \<Rightarrow> reply \<times> intent_params option \<times> db_op list \<times> db" where
  "create_payment_intent env body d =
     (case body of
        JNull \<Rightarrow> (Reply 500 (ErrorMessage TypeError), None, [], d)
      | _ \<Rightarrow>
        (let cart = with_default (field body ''cart'') (JArr []);
             name = with_default (field body ''name'') (JStr '''');
             phone = with_default (field body ''phone'') (JStr '''');
             address = with_default (field body ''address'') (JStr '''');
             email = with_default (field body ''email'') (JStr '''');
             currency = with_default (field body ''currency'') (JStr ''usd'')
         in case cart of
              JArr (i # rest) \<Rightarrow>
                (case cart_total env (Some 0) (i # rest) of
                   Inl e \<Rightarrow> (Reply 500 (ErrorMessage e), None, [], d)
                 | Inr totalUSD \<Rightarrow>
                     (case currency of
                        JStr c \<Rightarrow>
                          (let params =
                                 payment_intent_params env cart name phone address email c totalUSD
                           in case paymentIntents_create env params of
                                Inl e \<Rightarrow> (Reply 500 (ErrorMessage e), Some params, [], d)
                              | Inr (client_secret, intent_id) \<Rightarrow>
                                  (Reply 200 (Body (JObj
                                     [(''clientSecret'', JStr client_secret),
                                      (''paymentIntentId'', JStr intent_id)])),
                                   Some params, [], d))
                      | _ \<Rightarrow> (Reply 500 (ErrorMessage TypeError), None, [], d)))
            | _ \<Rightarrow> (Reply 400 (Body (JObj [(''error'', JStr ''Cart is empty'')])), None, [], d)))"




section \<open>Runs of the system\<close>

text \<open>The same notification delivered \<open>n\<close> times to a webhook \<open>h\<close>: the replies in
  order and the tables after the last delivery.\<close>

fun deliveries ::
  "(json \<Rightarrow> db \<Rightarrow> reply \<times> db_op list \<times> db) \<Rightarrow> nat \<Rightarrow> json \<Rightarrow> db \<Rightarrow> reply list \<times> db" where
  "deliveries h 0 body d = ([], d)"
| "deliveries h (Suc n) body d =
     (case h body d of
        (r, ops, d1) \<Rightarrow> (case deliveries h n body d1 of (rs, d2) \<Rightarrow> (r # rs, d2)))"

text \<open>The tables a sequence of requests can lead to, from empty tables: any request to
  any of the six routes that reach the tables, in any order.\<close>

definition empty_db :: db where
  "empty_db = \<lparr>payments = [], orders = []\<rparr>"



text \<open>The columns of a payment row that no webhook writes.\<close>

definition fixed_columns :: "payment_row \<Rightarrow> string \<times> string \<times> json \<times> json \<times> json \<times> json" where
  "fixed_columns p = (payment_id p, provider p, amount p, phone p, customer_name p, items p)"

section \<open>The specification's own notions\<close>



text \<open>A cart the specification rejects: it is empty, or a line item lacks a positive
  price, or has a quantity that is not positive (a missing quantity is the default).\<close>

definition spec_positive_price :: "json \<Rightarrow> bool" where
  "spec_positive_price i = (case field i ''price'' of Some (JNum p) \<Rightarrow> 0 < p | _ \<Rightarrow> False)"

definition spec_positive_or_default_quantity :: "json \<Rightarrow> bool" where
  "spec_positive_or_default_quantity i =
     (case field i ''quantity'' of None \<Rightarrow> True | Some (JNum q) \<Rightarrow> 0 < q | _ \<Rightarrow> False)"

definition spec_invalid_cart :: "json list \<Rightarrow> bool" where
  "spec_invalid_cart cart =
     (cart = [] \<or>
      list_ex (\<lambda>i. \<not> spec_positive_price i \<or> \<not> spec_positive_or_default_quantity i) cart)"

section \<open>What the checkout charges, line by line\<close>

text \<open>The cart of a request, after the default of the destructuring, and the test the
  handler makes on it: an array with at least one element.\<close>

definition requested_cart :: "json \<Rightarrow> json" where
  "requested_cart body = with_default (field body ''cart'') (JArr [])"

definition nonempty_array :: "json \<Rightarrow> bool" where
  "nonempty_array v = (case v of JArr (i # rest) \<Rightarrow> True | _ \<Rightarrow> False)"

text \<open>A line item with numbers where it has a price and a quantity; the price and the
  quantity the handler then charges it with (no price counts as 0; no quantity, or the
  quantity 0, counts as 1).\<close>

definition numeric_item :: "json \<Rightarrow> bool" where
  "numeric_item i =
     ((case i of JObj kvs \<Rightarrow> True | _ \<Rightarrow> False) \<and>
      (case field i ''price'' of None \<Rightarrow> True | Some (JNum p) \<Rightarrow> True | _ \<Rightarrow> False) \<and>
      (case field i ''quantity'' of None \<Rightarrow> True | Some (JNum q) \<Rightarrow> True | _ \<Rightarrow> False))"

definition charged_price :: "json \<Rightarrow> rat" where
  "charged_price i = (case field i ''price'' of Some (JNum p) \<Rightarrow> p | _ \<Rightarrow> 0)"

definition charged_quantity :: "json \<Rightarrow> rat" where
  "charged_quantity i =
     (case field i ''quantity'' of Some (JNum q) \<Rightarrow> if q = 0 then 1 else q | _ \<Rightarrow> 1)"

definition charged_total :: "json list \<Rightarrow> rat" where
  "charged_total cart = (\<Sum>i\<leftarrow>cart. charged_price i * charged_quantity i)"


section \<open>Sample data\<close>

text \<open>A store that executes every call. Its \<open>String(v)\<close> is never called below: the
  identifiers of the samples are strings.\<close>

definition demo_store :: store where
  "demo_store = \<lparr>accepts = (\<lambda>d op. True), to_text = (\<lambda>v. ''[object Object]'')\<rparr>"

definition checkout_body :: json where
  "checkout_body =
     JObj [(''amount'', JNum 5000), (''phone'', JStr ''620000000''), (''name'', JStr ''Awa'')]"

definition pending_db :: db where
  "pending_db = snd (snd (create_payment_orange demo_store ''pay_1'' checkout_body empty_db))"

definition notification :: "string \<Rightarrow> string \<Rightarrow> json" where
  "notification pid s = JObj [(''externalId'', JStr pid), (''status'', JStr s)]"

text \<open>The tables once the payment \<open>pay_1\<close> has been notified as paid.\<close>

definition paid_db :: db where
  "paid_db = tables (webhook_orange demo_store (notification ''pay_1'' ''paid'') pending_db)"

text \<open>A card backend with the default rate, no webhook secret, a provider that opens
  every intent, and parsers that know the two texts the samples use.\<close>

definition forged_event :: json where
  "forged_event =
     JObj [(''type'', JStr ''payment_intent.succeeded''),
           (''data'', JObj [(''object'',
              JObj [(''id'', JStr ''pi_forged''), (''amount'', JNum 7000)])])]"

definition demo_env :: card_env where
  "demo_env =
     \<lparr>GHS_RATE = Some 15,
      STRIPE_WEBHOOK_SECRET = None,
      parseFloat = (\<lambda>s. None),
      to_number = (\<lambda>v. None),
      stringify = (\<lambda>v. ''[]''),
      parse_value = (\<lambda>v. None),
      parse_body = (\<lambda>b. if b = ''forged'' then Some forged_event else None),
      paymentIntents_create = (\<lambda>p. Inr (''secret'', ''pi_1'')),
      constructEvent = (\<lambda>b sig secret. Inl SignatureError)\<rparr>"

definition line_item :: "rat \<Rightarrow> rat \<Rightarrow> json" where
  "line_item p q = JObj [(''price'', JNum p), (''quantity'', JNum q)]"

definition cart_body :: "json list \<Rightarrow> string \<Rightarrow> json" where
  "cart_body cart currency = JObj [(''cart'', JArr cart), (''currency'', JStr currency)]"

section \<open>Facts about the model\<close>




lemma notification_id_JNull: "notification_id JNull = None"
  by (simp add: notification_id_def js_or_def)

lemma stamped_no_match:
  "\<forall>p\<in>set ps. payment_id p \<noteq> k \<Longrightarrow> map (stamped s pd k) ps = ps"
  by (induction ps) (simp_all add: stamped_def)

lemma stamped_fixed_columns: "fixed_columns (stamped s pd k p) = fixed_columns p"
  by (simp add: stamped_def fixed_columns_def)

lemma stamped_payment_id: "payment_id (stamped s pd k p) = payment_id p"
  by (simp add: stamped_def)

lemma stamped_idem: "stamped s pd k (stamped s pd k p) = stamped s pd k p"
  by (simp add: stamped_def)

lemma order_of_stamped: "order_of_payment (stamped s pd k p) = order_of_payment p"
  by (simp add: stamped_def order_of_payment_def)

lemma find_stamped:
  "find (\<lambda>r. payment_id r = k) (map (stamped s pd k) ps)
     = map_option (stamped s pd k) (find (\<lambda>r. payment_id r = k) ps)"
  by (induction ps) (simp_all add: stamped_payment_id)

lemma find_id_None: "find (\<lambda>r. payment_id r = k) ps = None \<longleftrightarrow> (\<forall>p\<in>set ps. payment_id p \<noteq> k)"
  by (auto simp: find_None_iff)

lemma webhook_processed:
  assumes "notification_id body = Some v" and "truthy v"
    and "notification_status body = Some (JStr s)"
  shows "webhook st body d =
     (let k = filter_text st v;
          upd = PaymentsUpdate (toLowerCase s) body k;
          d1 = exec st upd d
      in if paid_equivalent (toLowerCase s)
         then (case select_payment st k d1 of
                 Some p \<Rightarrow>
                   (Reply 200 (Text ''ok''),
                    [upd, PaymentsSelect k, OrdersInsert (order_of_payment p)],
                    exec st (OrdersInsert (order_of_payment p)) d1)
               | None \<Rightarrow> (Reply 200 (Text ''ok''), [upd, PaymentsSelect k], d1))
         else (Reply 200 (Text ''ok''), [upd], d1))"
proof -
  have "body \<noteq> JNull" using assms(1) by (auto simp: notification_id_JNull)
  then show ?thesis using assms
    by (cases body) (simp_all add: webhook_def Let_def)
qed

lemma webhook_not_processed:
  assumes "\<not> (\<exists>v s. notification_id body = Some v \<and> truthy v \<and> notification_status body = Some (JStr s))"
  shows "calls (webhook st body d) = [] \<and> tables (webhook st body d) = d"
  using assms
  by (cases body) (auto simp add: webhook_def Let_def split: option.splits json.splits)


lemma payments_exec_update_ids:
  "map payment_id (payments (exec st (PaymentsUpdate s pd k) d)) = map payment_id (payments d)"
  by (simp add: exec_def stamped_payment_id)

lemma select_None_iff:
  "accepts st d (PaymentsSelect k) \<Longrightarrow>
   select_payment st k d = None \<longleftrightarrow> k \<notin> set (map payment_id (payments d))"
  by (auto simp: select_payment_def find_None_iff)

lemma select_after_update:
  assumes "accepts st (exec st (PaymentsUpdate s pd k) d) (PaymentsSelect k)"
  shows "select_payment st k (exec st (PaymentsUpdate s pd k) d) = None
     \<longleftrightarrow> (\<forall>p\<in>set (payments d). payment_id p \<noteq> k)"
proof -
  have "select_payment st k (exec st (PaymentsUpdate s pd k) d) = None
     \<longleftrightarrow> k \<notin> set (map payment_id (payments d))"
    using select_None_iff[OF assms] by (simp only: payments_exec_update_ids)
  then show ?thesis by auto
qed


lemma fixed_columns_exec:
  "map fixed_columns (payments (exec st op d)) = map fixed_columns (payments d)
     \<or> (\<exists>r. op = PaymentsInsert r)"
  by (cases op) (simp_all add: exec_def stamped_fixed_columns)


lemmas lower_eval = toLowerCase_def lower_char_def char_of_def bit_Suc_0_iff

lemmas hook_defs = webhook_orange_def webhook_mtn_def webhook_def notification_id_def
  notification_status_def js_or_def exec_def select_payment_def paid_equivalent_def
  order_of_payment_def stamped_def lower_eval notification_def demo_store_def Let_def

lemma pending_db_eq:
  "pending_db =
     \<lparr>payments =
        [\<lparr>payment_id = ''pay_1'', provider = ''orange'', amount = JNum 5000,
          phone = JStr ''620000000'', customer_name = JStr ''Awa'', items = JNull,
          status = ''pending'',
          provider_data = JObj [(''simulated'', JBool True),
             (''note'', JStr ''You must replace with real Orange API call'')]\<rparr>],
      orders = []\<rparr>"
  by (simp add: pending_db_def create_payment_orange_def create_payment_def Let_def
      createPaymentRecord_def payment_record_def checkout_body_def empty_db_def demo_store_def)

lemma paid_db_eq:
  "paid_db =
     \<lparr>payments =
        [\<lparr>payment_id = ''pay_1'', provider = ''orange'', amount = JNum 5000,
          phone = JStr ''620000000'', customer_name = JStr ''Awa'', items = JNull,
          status = ''paid'', provider_data = notification ''pay_1'' ''paid''\<rparr>],
      orders =
        [\<lparr>o_user_email = JStr ''620000000'', o_items = JNull, o_total = JNum 5000,
          o_name = JStr ''Awa'', o_phone = JNull, o_address = JStr ''Mobile money'',
          o_status = ''pending'', o_stripe_payment_intent = JNull\<rparr>]\<rparr>"
  by (simp add: paid_db_def pending_db_eq hook_defs)

lemma demo_accepts: "accepts demo_store d op"
  by (simp add: demo_store_def)

lemma sample_notification:
  "notification_id (notification pid s) = (if pid = [] then None else Some (JStr pid))"
  "s \<noteq> [] \<Longrightarrow> notification_status (notification pid s) = Some (JStr s)"
  by (simp_all add: notification_id_def notification_status_def js_or_def notification_def)

lemma webhook_bad_status:
  "\<not> (\<exists>s. notification_status body = Some (JStr s)) \<Longrightarrow>
   webhook st body d = (Reply 500 (Text ''err''), [], d)"
  by (cases body) (auto simp add: webhook_def Let_def split: option.splits json.splits)

lemma webhook_is: "h = webhook_orange \<or> h = webhook_mtn \<Longrightarrow> h = webhook"
  by (auto simp: webhook_orange_def webhook_mtn_def)

lemma exec_update_no_match:
  "\<forall>p\<in>set (payments d). payment_id p \<noteq> k \<Longrightarrow> exec st (PaymentsUpdate s pd k) d = d"
  by (simp add: exec_def stamped_no_match)

lemma select_no_match:
  "\<forall>p\<in>set (payments d). payment_id p \<noteq> k \<Longrightarrow> select_payment st k d = None"
  by (simp add: select_payment_def find_None_iff)




lemma exec_payments_insert_order: "payments (exec st (OrdersInsert orow) d) = payments d"
  by (simp add: exec_def)

lemma exec_update_fixed:
  "map fixed_columns (payments (exec st (PaymentsUpdate s pd k) d)) = map fixed_columns (payments d)"
  by (simp add: exec_def stamped_fixed_columns)

lemma webhook_payments:
  assumes "notification_id body = Some v" and "truthy v"
    and "notification_status body = Some (JStr s)"
  shows "payments (tables (webhook st body d))
     = payments (exec st (PaymentsUpdate (toLowerCase s) body (filter_text st v)) d)"
  by (simp add: webhook_processed[OF assms] Let_def exec_payments_insert_order
      split: option.splits)

lemma webhook_fixed_columns:
  "map fixed_columns (payments (tables (webhook st body d))) = map fixed_columns (payments d)"
proof (cases "\<exists>v s. notification_id body = Some v \<and> truthy v \<and> notification_status body = Some (JStr s)")
  case False
  then show ?thesis using webhook_not_processed[OF False, of st d] by simp
next
  case True
  then obtain v s where vs: "notification_id body = Some v" "truthy v"
    "notification_status body = Some (JStr s)" by blast
  show ?thesis by (simp only: webhook_payments[OF vs] exec_update_fixed)
qed

lemma map_stamped_idem:
  "map (stamped s pd k) (map (stamped s pd k) ps) = map (stamped s pd k) ps"
  by (simp add: stamped_idem)

lemma deliveries_paid:
  assumes all: "\<forall>d' op. accepts st d' op"
    and vs: "notification_id body = Some v" "truthy v" "notification_status body = Some (JStr s)"
    and pe: "paid_equivalent (toLowerCase s)"
  shows "find (\<lambda>r. payment_id r = filter_text st v) (payments d) = Some p \<Longrightarrow>
     deliveries (webhook st) (Suc n) body d =
       (replicate (Suc n) (Reply 200 (Text ''ok'')),
        \<lparr>payments = map (stamped (toLowerCase s) body (filter_text st v)) (payments d),
         orders = orders d @ replicate (Suc n) (order_of_payment p)\<rparr>)"
proof (induction n arbitrary: d p)
  case 0
  have sel: "select_payment st (filter_text st v)
      (exec st (PaymentsUpdate (toLowerCase s) body (filter_text st v)) d)
      = Some (stamped (toLowerCase s) body (filter_text st v) p)"
    using all 0 by (simp add: select_payment_def exec_def find_stamped)
  show ?case using all pe sel
    by (simp add: webhook_processed[OF vs] Let_def exec_def order_of_stamped)
next
  case (Suc n)
  let ?k = "filter_text st v"
  let ?t = "toLowerCase s"
  have sel: "select_payment st ?k (exec st (PaymentsUpdate ?t body ?k) d) = Some (stamped ?t body ?k p)"
    using all Suc.prems by (simp add: select_payment_def exec_def find_stamped)
  let ?d1 = "\<lparr>payments = map (stamped ?t body ?k) (payments d),
              orders = orders d @ [order_of_payment p]\<rparr>"
  have one: "webhook st body d =
      (Reply 200 (Text ''ok''),
       [PaymentsUpdate ?t body ?k, PaymentsSelect ?k, OrdersInsert (order_of_payment p)], ?d1)"
    using all pe sel
    by (simp add: webhook_processed[OF vs] Let_def exec_def order_of_stamped)
  have f1: "find (\<lambda>r. payment_id r = ?k) (payments ?d1) = Some (stamped ?t body ?k p)"
    using Suc.prems by (simp add: find_stamped)
  have rest: "deliveries (webhook st) (Suc n) body ?d1 =
       (replicate (Suc n) (Reply 200 (Text ''ok'')),
        \<lparr>payments = map (stamped ?t body ?k) (payments ?d1),
         orders = orders ?d1 @ replicate (Suc n) (order_of_payment (stamped ?t body ?k p))\<rparr>)"
    by (rule Suc.IH[OF f1])
  have "deliveries (webhook st) (Suc (Suc n)) body d =
      (case deliveries (webhook st) (Suc n) body ?d1 of (rs, d2) \<Rightarrow> (Reply 200 (Text ''ok'') # rs, d2))"
    by (simp only: deliveries.simps(2)[of _ "Suc n"] one prod.case)
  then show ?case
    by (simp only: rest prod.case) (simp add: stamped_idem order_of_stamped replicate_app_Cons_same)
qed

lemma cpi_null:
  "create_payment_intent env JNull d = (Reply 500 (ErrorMessage TypeError), None, [], d)"
  by (simp add: create_payment_intent_def)

lemma cpi_reject:
  "body \<noteq> JNull \<Longrightarrow> \<not> nonempty_array (requested_cart body) \<Longrightarrow>
   create_payment_intent env body d =
     (Reply 400 (Body (JObj [(''error'', JStr ''Cart is empty'')])), None, [], d)"
  by (cases body; cases "requested_cart body")
     (simp_all add: create_payment_intent_def Let_def requested_cart_def nonempty_array_def
        split: list.splits)

lemma cpi_accept:
  "body \<noteq> JNull \<Longrightarrow> requested_cart body = JArr (i # rest) \<Longrightarrow>
   create_payment_intent env body d =
     (let nm = with_default (field body ''name'') (JStr '''');
          ph = with_default (field body ''phone'') (JStr '''');
          addr = with_default (field body ''address'') (JStr '''');
          em = with_default (field body ''email'') (JStr '''');
          currency = with_default (field body ''currency'') (JStr ''usd'')
      in case cart_total env (Some 0) (i # rest) of
        Inl e \<Rightarrow> (Reply 500 (ErrorMessage e), None, [], d)
      | Inr totalUSD \<Rightarrow>
          (case currency of
             JStr c \<Rightarrow>
               (let params = payment_intent_params env (JArr (i # rest)) nm ph addr em c totalUSD
                in case paymentIntents_create env params of
                     Inl e \<Rightarrow> (Reply 500 (ErrorMessage e), Some params, [], d)
                   | Inr (client_secret, intent_id) \<Rightarrow>
                       (Reply 200 (Body (JObj
                          [(''clientSecret'', JStr client_secret),
                           (''paymentIntentId'', JStr intent_id)])),
                        Some params, [], d))
           | _ \<Rightarrow> (Reply 500 (ErrorMessage TypeError), None, [], d)))"
  by (cases body)
     (auto simp add: create_payment_intent_def Let_def requested_cart_def
        simp del: cart_total.simps)

lemma nonempty_array_cases:
  "nonempty_array v \<Longrightarrow> \<exists>i rest. v = JArr (i # rest)"
  by (cases v) (auto simp: nonempty_array_def split: list.splits)

lemma cpi_status_accept:
  assumes "body \<noteq> JNull" "requested_cart body = JArr (i # rest)"
  shows "http_status (fst (create_payment_intent env body d)) \<noteq> 400
    \<and> fst (snd (snd (create_payment_intent env body d))) = []
    \<and> snd (snd (snd (create_payment_intent env body d))) = d"
  by (simp add: cpi_accept[OF assms] Let_def split: sum.split json.split prod.split)












lemma numeric_item_price:
  "numeric_item i \<Longrightarrow> item_price env i = Some (charged_price i)"
  by (auto simp: numeric_item_def item_price_def charged_price_def
      split: option.splits json.splits)

lemma numeric_item_qty:
  "numeric_item i \<Longrightarrow> item_qty env i = Some (charged_quantity i)"
  by (auto simp: numeric_item_def item_qty_def charged_quantity_def Let_def
      split: option.splits json.splits)

lemma numeric_item_not_null: "numeric_item i \<Longrightarrow> i \<noteq> JNull"
  by (auto simp: numeric_item_def)

lemma cart_total_numeric:
  "list_all numeric_item cart \<Longrightarrow>
   cart_total env (Some acc) cart = Inr (Some (acc + charged_total cart))"
proof (induction cart arbitrary: acc)
  case Nil
  show ?case by (simp add: charged_total_def)
next
  case (Cons i cart)
  then have ni: "numeric_item i" and rest: "list_all numeric_item cart" by simp_all
  have unfold: "cart_total env (Some acc) (i # cart)
      = cart_total env (num_add (Some acc) (num_mul (item_price env i) (item_qty env i))) cart"
    using numeric_item_not_null[OF ni] by (cases i) simp_all
  have step: "cart_total env (Some acc) (i # cart)
      = cart_total env (Some (acc + charged_price i * charged_quantity i)) cart"
    by (simp only: unfold numeric_item_price[OF ni] numeric_item_qty[OF ni])
       (simp add: num_add_def num_mul_def)
  show ?case
    by (simp only: step Cons.IH[OF rest]) (simp add: charged_total_def)
qed


lemma requested_cart_given:
  "field body ''cart'' = Some v \<Longrightarrow> requested_cart body = v \<and> body \<noteq> JNull"
  by (cases body) (auto simp: requested_cart_def)

lemma cpi_amount:
  assumes b: "body \<noteq> JNull" and c: "requested_cart body = JArr (i # rest)"
    and t: "cart_total env (Some 0) (i # rest) = Inr totalUSD"
    and cur: "with_default (field body ''currency'') (JStr ''usd'') = JStr c"
  shows "map_option pi_amount (fst (snd (create_payment_intent env body d)))
     = Some (toSmallestUnit env totalUSD c)"
  by (simp add: cpi_accept[OF b c] t cur Let_def payment_intent_params_def
      del: cart_total.simps split: sum.split prod.split)

lemma toSmallestUnit_exact:
  "GHS_RATE env = Some rate \<Longrightarrow>
   toSmallestUnit env (Some amt) c
     = Some (of_int \<lfloor>amt * (if toLowerCase c = ''ghs'' then rate else 1) * 100 + 1 / 2\<rfloor>)"
  by (simp add: toSmallestUnit_def Math_round_def num_mul_def)

lemma sample_cart_body:
  "field (cart_body cart c) ''cart'' = Some (JArr cart)"
  "with_default (field (cart_body cart c) ''currency'') (JStr ''usd'') = JStr c"
  by (simp_all add: cart_body_def)

lemma sample_lines:
  "numeric_item (line_item p q)" "charged_price (line_item p q) = p"
  "charged_quantity (line_item p q) = (if q = 0 then 1 else q)"
  by (simp_all add: numeric_item_def charged_price_def charged_quantity_def line_item_def)

lemma ghs_lower: "toLowerCase ''ghs'' = ''ghs''" "toLowerCase ''usd'' = ''usd''"
  by (simp_all add: lower_eval)

section \<open>The mobile-money webhooks\<close>

subsection \<open>When an order insert is attempted\<close>



subsection \<open>A notification for an unknown payment\<close>

text \<open>
  Claim C5, as stated, has the request rejected with a 4xx response. The handler
  answers 400 only when the identifier is missing; a notification whose identifier
  matches no payment row is answered 200: here \<open>pay_9\<close> against a ledger that holds
  \<open>pay_1\<close> alone.
\<close>

theorem unknown_reference_not_rejected:
  "map payment_id (payments pending_db) = [''pay_1'']
   \<and> http_status (answer (webhook_orange demo_store (notification ''pay_9'' ''paid'') pending_db)) = 200
   \<and> \<not> (400 \<le> http_status (answer (webhook_orange demo_store (notification ''pay_9'' ''paid'') pending_db))
        \<and> http_status (answer (webhook_orange demo_store (notification ''pay_9'' ''paid'') pending_db)) < 500)"
  by (simp add: pending_db_eq hook_defs)

text \<open>
  Claim C5, amended. A notification with a truthy identifier that matches no payment
  row leaves both tables as they were, and no insert is among the calls of the
  handler; the answer is 200 \<open>ok\<close> when the status is a string (or absent), and 500
  when it is a truthy value of another type. It is never a 4xx.
\<close>

theorem unknown_reference_changes_nothing_replies_ok:
  "h = webhook_orange \<or> h = webhook_mtn \<Longrightarrow>
   notification_id body = Some v \<Longrightarrow> truthy v \<Longrightarrow>
   \<forall>p\<in>set (payments d). payment_id p \<noteq> filter_text st v \<Longrightarrow>
   tables (h st body d) = d
   \<and> (\<forall>orow. OrdersInsert orow \<notin> set (calls (h st body d)))
   \<and> (\<forall>r. PaymentsInsert r \<notin> set (calls (h st body d)))
   \<and> answer (h st body d) =
       (case notification_status body of
          Some (JStr s) \<Rightarrow> Reply 200 (Text ''ok'')
        | _ \<Rightarrow> Reply 500 (Text ''err''))"
proof -
  assume h: "h = webhook_orange \<or> h = webhook_mtn"
    and v: "notification_id body = Some v" "truthy v"
    and none: "\<forall>p\<in>set (payments d). payment_id p \<noteq> filter_text st v"
  have hw: "h = webhook" using h by (rule webhook_is)
  show ?thesis
  proof (cases "\<exists>s. notification_status body = Some (JStr s)")
    case False
    have "(case notification_status body of
          Some (JStr s) \<Rightarrow> Reply 200 (Text ''ok'')
        | _ \<Rightarrow> Reply 500 (Text ''err'')) = Reply 500 (Text ''err'')"
      using False by (auto split: option.splits json.splits)
    then show ?thesis unfolding hw by (simp add: webhook_bad_status[OF False])
  next
    case True
    then obtain s where s: "notification_status body = Some (JStr s)" by blast
    show ?thesis unfolding hw
      by (simp add: webhook_processed[OF v s] Let_def exec_update_no_match[OF none]
          select_no_match[OF none] s)
  qed
qed

theorem unknown_reference_changes_nothing_replies_ok_witness:
  "notification_id (notification ''pay_9'' ''paid'') = Some (JStr ''pay_9'')
   \<and> truthy (JStr ''pay_9'')
   \<and> map payment_id (payments pending_db) = [''pay_1'']
   \<and> tables (webhook_orange demo_store (notification ''pay_9'' ''paid'') pending_db) = pending_db
   \<and> answer (webhook_orange demo_store (notification ''pay_9'' ''paid'') pending_db)
       = Reply 200 (Text ''ok'')"
proof -
  have a: "webhook_orange = webhook_orange \<or> webhook_orange = webhook_mtn" by simp
  have i: "notification_id (notification ''pay_9'' ''paid'') = Some (JStr ''pay_9'')"
    by (simp add: sample_notification)
  have t: "truthy (JStr ''pay_9'')" by simp
  have n: "\<forall>p\<in>set (payments pending_db). payment_id p \<noteq> filter_text demo_store (JStr ''pay_9'')"
    by (simp add: pending_db_eq)
  have ids: "map payment_id (payments pending_db) = [''pay_1'']" by (simp add: pending_db_eq)
  from unknown_reference_changes_nothing_replies_ok[OF a i t n] show ?thesis using i ids by (simp add: sample_notification)
qed

subsection \<open>The status is written before the order\<close>



subsection \<open>A notification for a payment that is already paid or failed\<close>

text \<open>
  Claim C2, as stated, has a finalized payment keep its status and trigger no order
  again. The update is unconditional: a \<open>failed\<close> notification for the paid payment
  \<open>pay_1\<close> turns its status into \<open>failed\<close>, and a second \<open>paid\<close> notification
  inserts a second order.
\<close>

theorem failed_after_paid_changes_status:
  "map status (payments paid_db) = [''paid'']
   \<and> map status (payments (tables (webhook_orange demo_store (notification ''pay_1'' ''failed'') paid_db)))
       = [''failed'']
   \<and> length (orders paid_db) = 1
   \<and> length (orders (tables (webhook_orange demo_store (notification ''pay_1'' ''paid'') paid_db))) = 2"
  by (simp add: paid_db_eq hook_defs)

text \<open>
  Claim C2, amended. Whatever the status of the payment was, a notification with a
  truthy identifier and a string status, whose update the store executes, stores the
  payload as provider data and sets the status to the lower-cased token on every row
  under that identifier; no other column of any payment row changes (there is no
  \<open>order_id\<close> column to change); and with a paid-equivalent token, a matching row and
  a store that executes every call, one more order is inserted.
\<close>

theorem notification_overwrites_status_whatever_it_was:
  "h = webhook_orange \<or> h = webhook_mtn \<Longrightarrow>
   notification_id body = Some v \<Longrightarrow> truthy v \<Longrightarrow>
   notification_status body = Some (JStr s) \<Longrightarrow>
   accepts st d (PaymentsUpdate (toLowerCase s) body (filter_text st v)) \<Longrightarrow>
   payments (tables (h st body d))
     = map (stamped (toLowerCase s) body (filter_text st v)) (payments d)
   \<and> (\<forall>p\<in>set (payments (tables (h st body d))).
         payment_id p = filter_text st v \<longrightarrow> status p = toLowerCase s \<and> provider_data p = body)
   \<and> map fixed_columns (payments (tables (h st body d))) = map fixed_columns (payments d)
   \<and> (paid_equivalent (toLowerCase s) \<and> (\<forall>d' op. accepts st d' op)
        \<and> (\<exists>p\<in>set (payments d). payment_id p = filter_text st v)
       \<longrightarrow> length (orders (tables (h st body d))) = Suc (length (orders d)))"
proof -
  assume h: "h = webhook_orange \<or> h = webhook_mtn"
    and vs: "notification_id body = Some v" "truthy v" "notification_status body = Some (JStr s)"
    and acc: "accepts st d (PaymentsUpdate (toLowerCase s) body (filter_text st v))"
  have hw: "h = webhook" using h by (rule webhook_is)
  let ?k = "filter_text st v"
  let ?upd = "PaymentsUpdate (toLowerCase s) body ?k"
  have p: "payments (tables (webhook st body d)) = map (stamped (toLowerCase s) body ?k) (payments d)"
    using acc by (simp add: webhook_payments[OF vs] exec_def)
  have q: "\<forall>p\<in>set (payments (tables (webhook st body d))).
         payment_id p = ?k \<longrightarrow> status p = toLowerCase s \<and> provider_data p = body"
    by (auto simp: p stamped_def)
  have o: "paid_equivalent (toLowerCase s) \<and> (\<forall>d' op. accepts st d' op)
        \<and> (\<exists>p\<in>set (payments d). payment_id p = ?k)
       \<longrightarrow> length (orders (tables (webhook st body d))) = Suc (length (orders d))"
  proof (intro impI, elim conjE)
    assume pe: "paid_equivalent (toLowerCase s)" and all: "\<forall>d' op. accepts st d' op"
      and ex: "\<exists>p\<in>set (payments d). payment_id p = ?k"
    have "accepts st (exec st ?upd d) (PaymentsSelect ?k)" using all by simp
    from select_after_update[OF this] ex
    obtain p where sp: "select_payment st ?k (exec st ?upd d) = Some p" by auto
    show "length (orders (tables (webhook st body d))) = Suc (length (orders d))"
      using pe sp all
      by (simp add: webhook_processed[OF vs] Let_def exec_def)
  qed
  show ?thesis unfolding hw using p q o webhook_fixed_columns by blast
qed

theorem notification_overwrites_status_whatever_it_was_witness:
  "notification_id (notification ''pay_1'' ''failed'') = Some (JStr ''pay_1'')
   \<and> truthy (JStr ''pay_1'')
   \<and> notification_status (notification ''pay_1'' ''failed'') = Some (JStr ''failed'')
   \<and> accepts demo_store paid_db
        (PaymentsUpdate (toLowerCase ''failed'') (notification ''pay_1'' ''failed'')
           (filter_text demo_store (JStr ''pay_1'')))
   \<and> map status (payments paid_db) = [''paid'']
   \<and> map status (payments (tables (webhook_mtn demo_store (notification ''pay_1'' ''failed'') paid_db)))
       = [''failed'']
   \<and> map provider_data (payments (tables (webhook_mtn demo_store (notification ''pay_1'' ''failed'') paid_db)))
       = [notification ''pay_1'' ''failed'']"
proof -
  have b: "webhook_mtn = webhook_orange \<or> webhook_mtn = webhook_mtn" by simp
  have i: "notification_id (notification ''pay_1'' ''failed'') = Some (JStr ''pay_1'')"
    and s: "notification_status (notification ''pay_1'' ''failed'') = Some (JStr ''failed'')"
    by (simp_all add: sample_notification)
  have t: "truthy (JStr ''pay_1'')" by simp
  have a: "accepts demo_store paid_db
        (PaymentsUpdate (toLowerCase ''failed'') (notification ''pay_1'' ''failed'')
           (filter_text demo_store (JStr ''pay_1'')))" by (rule demo_accepts)
  have l: "toLowerCase ''failed'' = ''failed''" by (simp add: lower_eval)
  from notification_overwrites_status_whatever_it_was[OF b i t s a] have
    "payments (tables (webhook_mtn demo_store (notification ''pay_1'' ''failed'') paid_db))
     = map (stamped (toLowerCase ''failed'') (notification ''pay_1'' ''failed'')
         (filter_text demo_store (JStr ''pay_1''))) (payments paid_db)" by blast
  then show ?thesis using i s t a by (simp add: l paid_db_eq stamped_def)
qed

subsection \<open>The guard of the order insert\<close>




subsection \<open>The same paid notification, delivered again\<close>

text \<open>
  Claim C1, as stated, has one order after any number of deliveries. Two deliveries
  of the \<open>paid\<close> notification for \<open>pay_1\<close> are both answered 200 and leave two
  orders.
\<close>

theorem paid_notification_twice_two_orders:
  "map payment_id (payments pending_db) = [''pay_1'']
   \<and> fst (deliveries (webhook_orange demo_store) 2 (notification ''pay_1'' ''paid'') pending_db)
       = [Reply 200 (Text ''ok''), Reply 200 (Text ''ok'')]
   \<and> length (orders (snd
        (deliveries (webhook_orange demo_store) 2 (notification ''pay_1'' ''paid'') pending_db))) = 2"
  by (simp add: pending_db_eq hook_defs numeral_2_eq_2)

text \<open>
  Claim C1, amended. On a store that executes every call, \<open>n \<ge> 1\<close> deliveries of
  the same paid-equivalent notification for a known payment are each answered 200
  \<open>ok\<close>; the payment rows are after the last delivery what they were after the
  first (status the lower-cased token, provider data the payload); and each delivery
  has inserted one order built from the payment row: \<open>n\<close> orders.
\<close>

theorem each_paid_delivery_inserts_an_order:
  "h = webhook_orange \<or> h = webhook_mtn \<Longrightarrow>
   \<forall>d' op. accepts st d' op \<Longrightarrow>
   notification_id body = Some v \<Longrightarrow> truthy v \<Longrightarrow>
   notification_status body = Some (JStr s) \<Longrightarrow> paid_equivalent (toLowerCase s) \<Longrightarrow>
   find (\<lambda>r. payment_id r = filter_text st v) (payments d) = Some p \<Longrightarrow>
   0 < n \<Longrightarrow>
   deliveries (h st) n body d =
     (replicate n (Reply 200 (Text ''ok'')),
      \<lparr>payments = map (stamped (toLowerCase s) body (filter_text st v)) (payments d),
       orders = orders d @ replicate n (order_of_payment p)\<rparr>)"
proof -
  assume h: "h = webhook_orange \<or> h = webhook_mtn"
    and all: "\<forall>d' op. accepts st d' op"
    and vs: "notification_id body = Some v" "truthy v" "notification_status body = Some (JStr s)"
    and pe: "paid_equivalent (toLowerCase s)"
    and f: "find (\<lambda>r. payment_id r = filter_text st v) (payments d) = Some p"
    and n: "0 < n"
  have hw: "h = webhook" using h by (rule webhook_is)
  from n obtain m where m: "n = Suc m" by (cases n) auto
  show ?thesis unfolding hw m by (rule deliveries_paid[OF all vs pe f])
qed

theorem each_paid_delivery_inserts_an_order_witness:
  "(\<forall>d' op. accepts demo_store d' op)
   \<and> deliveries (webhook_orange demo_store) 3 (notification ''pay_1'' ''paid'') pending_db =
     (replicate 3 (Reply 200 (Text ''ok'')),
      \<lparr>payments = payments paid_db,
       orders = replicate 3 (order_of_payment (hd (payments pending_db)))\<rparr>)"
proof -
  have a: "webhook_orange = webhook_orange \<or> webhook_orange = webhook_mtn" by simp
  have all: "\<forall>d' op. accepts demo_store d' op" by (simp add: demo_accepts)
  have i: "notification_id (notification ''pay_1'' ''paid'') = Some (JStr ''pay_1'')"
    and s: "notification_status (notification ''pay_1'' ''paid'') = Some (JStr ''paid'')"
    by (simp_all add: sample_notification)
  have t: "truthy (JStr ''pay_1'')" by simp
  have pe: "paid_equivalent (toLowerCase ''paid'')" by (simp add: paid_equivalent_def lower_eval)
  have f: "find (\<lambda>r. payment_id r = filter_text demo_store (JStr ''pay_1'')) (payments pending_db)
      = Some (hd (payments pending_db))" by (simp add: pending_db_eq)
  have n: "0 < (3::nat)" by simp
  from each_paid_delivery_inserts_an_order[OF a all i t s pe f n] show ?thesis using all
    by (simp add: paid_db_eq pending_db_eq stamped_def lower_eval)
qed

section \<open>The status of a payment over any run\<close>




section \<open>The card backend\<close>

subsection \<open>Verification of a notification\<close>




subsection \<open>The amount of a checkout\<close>




subsection \<open>The validation of a checkout\<close>

text \<open>
  Claim C8, as stated, rejects a cart in which a line item lacks a positive price. The
  handler looks at no line item: a cart whose second line has the price 0 is accepted,
  answered 200 and charged 5000 for the first line.
\<close>

theorem unpriced_line_not_rejected:
  "spec_invalid_cart [line_item 50 1, JObj [(''price'', JNum 0)]]
   \<and> http_status (fst (create_payment_intent demo_env
        (cart_body [line_item 50 1, JObj [(''price'', JNum 0)]] ''usd'') empty_db)) = 200
   \<and> map_option pi_amount (fst (snd (create_payment_intent demo_env
        (cart_body [line_item 50 1, JObj [(''price'', JNum 0)]] ''usd'') empty_db)))
       = Some (Some 5000)"
proof -
  let ?cart = "[line_item 50 1, JObj [(''price'', JNum 0)]]"
  have inv: "spec_invalid_cart ?cart"
    by (simp add: spec_invalid_cart_def spec_positive_price_def)
  have b: "cart_body ?cart ''usd'' \<noteq> JNull" by (simp add: cart_body_def)
  have rc: "requested_cart (cart_body ?cart ''usd'')
      = JArr (line_item 50 1 # [JObj [(''price'', JNum 0)]])"
    by (simp add: requested_cart_def cart_body_def)
  have num: "list_all numeric_item ?cart" by (simp add: sample_lines) (simp add: numeric_item_def)
  have t: "cart_total demo_env (Some 0) (line_item 50 1 # [JObj [(''price'', JNum 0)]])
      = Inr (Some 50)"
    using cart_total_numeric[OF num, of demo_env 0]
    by (simp add: charged_total_def charged_price_def charged_quantity_def line_item_def
        del: cart_total.simps)
  have rate: "GHS_RATE demo_env = Some 15" by (simp add: demo_env_def)
  have pay: "paymentIntents_create demo_env p = Inr (''secret'', ''pi_1'')" for p
    by (simp add: demo_env_def)
  have val: "toSmallestUnit demo_env (Some 50) ''usd'' = Some 5000"
    by (simp add: toSmallestUnit_exact[OF rate] ghs_lower floor_eq_iff)
  have amt: "map_option pi_amount (fst (snd (create_payment_intent demo_env
        (cart_body ?cart ''usd'') empty_db))) = Some (toSmallestUnit demo_env (Some 50) ''usd'')"
    by (rule cpi_amount[OF b rc t sample_cart_body(2)])
  have st: "http_status (fst (create_payment_intent demo_env (cart_body ?cart ''usd'') empty_db)) = 200"
    by (simp add: cpi_accept[OF b rc] t sample_cart_body Let_def pay
        del: cart_total.simps)
  show ?thesis using inv st amt by (simp only: val)
qed

text \<open>
  Claim C8, amended. The checkout answers 400 exactly when the request has a body whose
  cart, after the default, is not an array with at least one element (it is missing,
  empty or no array); line items are not validated. Whatever the request, the handler
  makes no storage call and leaves the tables as they are, so no payment record is
  created. In particular a checkout with \<open>cart: []\<close> gets the 400 reply
  \<open>Cart is empty\<close> and nothing is asked of the provider.
\<close>

theorem validation_error_iff_cart_not_nonempty_array:
  "(http_status (fst (create_payment_intent env body d)) = 400
      \<longleftrightarrow> body \<noteq> JNull \<and> \<not> nonempty_array (requested_cart body))
   \<and> fst (snd (snd (create_payment_intent env body d))) = []
   \<and> snd (snd (snd (create_payment_intent env body d))) = d
   \<and> (field body ''cart'' = Some (JArr []) \<longrightarrow>
        create_payment_intent env body d =
          (Reply 400 (Body (JObj [(''error'', JStr ''Cart is empty'')])), None, [], d))"
proof (cases "body = JNull")
  case True
  then show ?thesis by (simp add: cpi_null)
next
  case False
  show ?thesis
  proof (cases "nonempty_array (requested_cart body)")
    case True
    from nonempty_array_cases[OF this] obtain i rest
      where rc: "requested_cart body = JArr (i # rest)" by blast
    have "field body ''cart'' \<noteq> Some (JArr [])"
      using rc requested_cart_given[of body "JArr []"] by auto
    with cpi_status_accept[OF False rc, of env d] True False show ?thesis by simp
  next
    case n: False
    show ?thesis using False n by (simp add: cpi_reject[OF False n])
  qed
qed

theorem validation_error_iff_cart_not_nonempty_array_witness:
  "field (cart_body [] ''usd'') ''cart'' = Some (JArr [])
   \<and> create_payment_intent demo_env (cart_body [] ''usd'') pending_db =
       (Reply 400 (Body (JObj [(''error'', JStr ''Cart is empty'')])), None, [], pending_db)"
  using validation_error_iff_cart_not_nonempty_array[of demo_env "cart_body [] ''usd''" pending_db]
  by (simp add: sample_cart_body)

end
